theory Spec2Isabelle
  imports Main
begin

section \<open>JSON payloads and the Python operations used on them\<close>

text \<open>
  Every payload the gateway handles is the result of \<^verbatim>\<open>response.json()\<close>: a Python value
  built from \<^verbatim>\<open>None\<close>, booleans, numbers, strings, lists and dictionaries. Dictionaries keep
  their insertion order, so they are association lists. Numbers are integers here: no
  operation of \<^verbatim>\<open>piplai.py\<close> computes with a payload number.
\<close>

datatype json = JNull | JBool bool | JInt int | JStr string
  | JList "json list" | JObj "(string \<times> json) list"

type_synonym dict = "(string \<times> json) list"

text \<open>\<^verbatim>\<open>d.get(k, default)\<close> and \<^verbatim>\<open>d.get(k)\<close>.\<close>

definition get_default :: "dict \<Rightarrow> string \<Rightarrow> json \<Rightarrow> json" where
  "get_default d k dflt = (case map_of d k of None \<Rightarrow> dflt | Some v \<Rightarrow> v)"

definition get_none :: "dict \<Rightarrow> string \<Rightarrow> json" where
  "get_none d k = get_default d k JNull"

text \<open>\<^verbatim>\<open>d[k] = v\<close>: an existing key keeps its place, a new key goes to the end.\<close>

fun dict_set :: "dict \<Rightarrow> string \<Rightarrow> json \<Rightarrow> dict" where
  "dict_set [] k v = [(k, v)]"
| "dict_set ((k', v') # d) k v = (if k' = k then (k, v) # d else (k', v') # dict_set d k v)"

text \<open>Truth value of a payload in a condition (\<^verbatim>\<open>if x:\<close>).\<close>

fun truthy :: "json \<Rightarrow> bool" where
  "truthy JNull = False"
| "truthy (JBool b) = b"
| "truthy (JInt i) = (i \<noteq> 0)"
| "truthy (JStr s) = (s \<noteq> [])"
| "truthy (JList xs) = (xs \<noteq> [])"
| "truthy (JObj d) = (d \<noteq> [])"

text \<open>Truth value of an \<^verbatim>\<open>Optional[str]\<close> and an \<^verbatim>\<open>Optional[int]\<close> argument.\<close>

fun truthy_str :: "string option \<Rightarrow> bool" where
  "truthy_str None = False"
| "truthy_str (Some s) = (s \<noteq> [])"

fun truthy_int :: "int option \<Rightarrow> bool" where
  "truthy_int None = False"
| "truthy_int (Some i) = (i \<noteq> 0)"

text \<open>
  \<^verbatim>\<open>==\<close> on payloads: \<^verbatim>\<open>True == 1\<close> holds in Python, lists compare element by element,
  dictionaries compare regardless of the order of their keys.
\<close>

fun py_eq :: "json \<Rightarrow> json \<Rightarrow> bool" where
  "py_eq JNull JNull = True"
| "py_eq (JBool a) (JBool b) = (a = b)"
| "py_eq (JBool a) (JInt b) = ((if a then 1 else 0) = b)"
| "py_eq (JInt a) (JBool b) = (a = (if b then 1 else 0))"
| "py_eq (JInt a) (JInt b) = (a = b)"
| "py_eq (JStr a) (JStr b) = (a = b)"
| "py_eq (JList xs) (JList ys) = list_all2 py_eq xs ys"
| "py_eq (JObj a) (JObj b) =
     (length a = length b \<and>
      list_all (\<lambda>kv. case map_of b (fst kv) of None \<Rightarrow> False | Some w \<Rightarrow> py_eq (snd kv) w) a)"
| "py_eq _ _ = False"

text \<open>
  \<^verbatim>\<open>for x in v\<close>: a list yields its elements, a string its characters, a dictionary its
  keys; anything else is not iterable (\<^verbatim>\<open>None\<close> stands for the TypeError).
\<close>

fun py_iter :: "json \<Rightarrow> json list option" where
  "py_iter (JList xs) = Some xs"
| "py_iter (JStr s) = Some (map (\<lambda>c. JStr [c]) s)"
| "py_iter (JObj d) = Some (map (\<lambda>kv. JStr (fst kv)) d)"
| "py_iter _ = None"

text \<open>\<^verbatim>\<open>len(v)\<close>; \<^verbatim>\<open>None\<close> stands for the TypeError of an unsized value.\<close>

fun py_len :: "json \<Rightarrow> nat option" where
  "py_len (JList xs) = Some (length xs)"
| "py_len (JStr s) = Some (length s)"
| "py_len (JObj d) = Some (length d)"
| "py_len _ = None"

text \<open>
  \<^verbatim>\<open>s.upper()\<close> and \<^verbatim>\<open>s.replace(" ", "_")\<close>. A \<^typ>\<open>string\<close> is a list of 8-bit characters, so
  the model covers ASCII text: the letters a to z are raised, every other character stays.
\<close>

definition upper_char :: "char \<Rightarrow> char" where
  "upper_char c =
     (case map_of (zip ''abcdefghijklmnopqrstuvwxyz'' ''ABCDEFGHIJKLMNOPQRSTUVWXYZ'') c of
        Some u \<Rightarrow> u | None \<Rightarrow> c)"

definition upper :: "string \<Rightarrow> string" where
  "upper s = map upper_char s"

definition replace_char :: "char \<Rightarrow> char \<Rightarrow> string \<Rightarrow> string" where
  "replace_char a b s = map (\<lambda>c. if c = a then b else c) s"

text \<open>\<^verbatim>\<open>str(i)\<close> for an integer, and the f-string renderings of the cache key's parts.\<close>

fun digits :: "nat \<Rightarrow> string" where
  "digits n = (if n < 10 then [''0123456789'' ! n]
               else digits (n div 10) @ [''0123456789'' ! (n mod 10)])"

definition str_int :: "int \<Rightarrow> string" where
  "str_int i = (if i < 0 then CHR ''-'' # digits (nat (- i)) else digits (nat i))"

definition str_bool :: "bool \<Rightarrow> string" where
  "str_bool b = (if b then ''True'' else ''False'')"

fun str_opt :: "string option \<Rightarrow> string" where
  "str_opt None = ''None''"
| "str_opt (Some s) = s"

fun json_opt_str :: "string option \<Rightarrow> json" where
  "json_opt_str None = JNull"
| "json_opt_str (Some s) = JStr s"

fun json_opt_int :: "int option \<Rightarrow> json" where
  "json_opt_int None = JNull"
| "json_opt_int (Some i) = JInt i"

section \<open>Exceptions, requests and the upstream provider\<close>

text \<open>
  The exceptions that can cross the gateway. \<^verbatim>\<open>httpx.HTTPError\<close> has two subclasses:
  \<^verbatim>\<open>HTTPStatusError\<close> (raised by \<^verbatim>\<open>raise_for_status\<close>, carrying the status code) and
  \<^verbatim>\<open>RequestError\<close> (transport failures and timeouts). \<^verbatim>\<open>ValueError\<close> is what
  \<^verbatim>\<open>response.json()\<close> raises on a body that is not JSON; AttributeError and TypeError
  come from the gateway's own code applied to a payload of an unexpected shape.
\<close>

datatype exn = HTTPStatusError nat | RequestError | ValueError | AttributeError | TypeError

fun is_HTTPError :: "exn \<Rightarrow> bool" where
  "is_HTTPError (HTTPStatusError c) = True"
| "is_HTTPError RequestError = True"
| "is_HTTPError _ = False"

text \<open>
  A URL is a literal path under the base URL, or the thread path, whose last segment is the
  interpolated \<^verbatim>\<open>thread_id\<close> of the record (kept as the payload value).
\<close>

datatype url = Path string | ThreadPath string json

datatype request
  = GET url "(string \<times> string) list" "(string \<times> string) list"
  | POST url "(string \<times> string) list" json

text \<open>
  The provider is the environment. One upstream exchange is the three source lines
  \<^verbatim>\<open>client.get/post(...)\<close>, \<^verbatim>\<open>response.raise_for_status()\<close>, \<^verbatim>\<open>response.json()\<close>: it
  raises or yields a payload, and takes some time. Its answer may depend on every request
  made before.
\<close>

type_synonym upstream = "request list \<Rightarrow> request \<Rightarrow> (exn + json) \<times> nat"

type_synonym env = "string \<Rightarrow> string option"

text \<open>\<^verbatim>\<open>os.getenv(k, default)\<close> and \<^verbatim>\<open>os.getenv(k)\<close>.\<close>

definition getenv_default :: "env \<Rightarrow> string \<Rightarrow> string \<Rightarrow> string" where
  "getenv_default ev k dflt = (case ev k of None \<Rightarrow> dflt | Some v \<Rightarrow> v)"

definition getenv :: "env \<Rightarrow> string \<Rightarrow> string option" where
  "getenv ev k = ev k"

section \<open>The TTL cache\<close>

text \<open>
  Modelled from the spec: the cache container is \<^verbatim>\<open>cachetools.TTLCache\<close>, a library that
  is not part of the sources. An entry carries its expiry time; an entry whose time has
  come is absent for a lookup; storing a key first drops the expired entries, then, for a
  new key in a full cache, evicts from the least recently used end; reading or storing a
  key makes it the most recently used. The list is ordered from least to most recently
  used.
\<close>

type_synonym 'v ttl_cache = "(string \<times> 'v \<times> nat) list"

definition ttl_lookup :: "'v ttl_cache \<Rightarrow> nat \<Rightarrow> string \<Rightarrow> 'v option" where
  "ttl_lookup c t k =
     (case map_of c k of
        None \<Rightarrow> None
      | Some (v, expires) \<Rightarrow> if t < expires then Some v else None)"

definition ttl_touch :: "'v ttl_cache \<Rightarrow> string \<Rightarrow> 'v ttl_cache" where
  "ttl_touch c k = filter (\<lambda>e. fst e \<noteq> k) c @ filter (\<lambda>e. fst e = k) c"

definition ttl_setitem :: "nat \<Rightarrow> nat \<Rightarrow> 'v ttl_cache \<Rightarrow> nat \<Rightarrow> string \<Rightarrow> 'v \<Rightarrow> 'v ttl_cache" where
  "ttl_setitem maxsize ttl c t k v =
     (let live = filter (\<lambda>e. t < snd (snd e)) c
      in if k \<in> set (map fst live)
         then filter (\<lambda>e. fst e \<noteq> k) live @ [(k, v, t + ttl)]
         else drop (Suc (length live) - maxsize) live @ [(k, v, t + ttl)])"

section \<open>The gateway object\<close>

text \<open>
  The fields of \<^verbatim>\<open>PiplAPI\<close>, together with the two things of the world its methods act on:
  the clock the caches read (\<open>now\<close>, in whole seconds) and the log of the upstream requests
  made so far (\<open>calls\<close>).
\<close>

record state =
  api_key :: string
  base_url :: string
  workspace_id :: string
  headers :: "(string \<times> string) list"
  email_cache :: "json ttl_cache"
  label_cache :: "json ttl_cache"
  now :: nat
  calls :: "request list"

text \<open>\<^verbatim>\<open>PiplAPI.__init__\<close>, run at time \<open>t\<close> in the environment \<open>ev\<close>.\<close>

definition init :: "env \<Rightarrow> nat \<Rightarrow> state" where
  "init ev t =
     (let key = getenv_default ev ''PIPL_API_KEY'' ''6fc126c4-04e5c9d5-87b13817-eedc8acc''
      in \<lparr> api_key = key,
           base_url = ''https://api.pipl.ai/api/v1'',
           workspace_id = getenv_default ev ''PIPL_WORKSPACE_ID'' ''67bd12283f02ce58fa6fb65d'',
           headers = [(''x-api-key'', key), (''Content-Type'', ''application/json'')],
           email_cache = [],
           label_cache = [],
           now = t,
           calls = [] \<rparr>)"

definition email_cache_maxsize :: nat where "email_cache_maxsize = 100"
definition email_cache_ttl :: nat where "email_cache_ttl = 300"
definition label_cache_maxsize :: nat where "label_cache_maxsize = 100"
definition label_cache_ttl :: nat where "label_cache_ttl = 3600"

text \<open>Time passing between two calls of the gateway.\<close>

definition advance :: "nat \<Rightarrow> state \<Rightarrow> state" where
  "advance d s = s\<lparr>now := now s + d\<rparr>"

text \<open>One upstream exchange: the request is logged and the clock moves by its duration.\<close>

definition http :: "upstream \<Rightarrow> request \<Rightarrow> state \<Rightarrow> (exn + json) \<times> state" where
  "http up r s =
     (case up (calls s) r of
        (res, d) \<Rightarrow> (res, s\<lparr>now := now s + d, calls := calls s @ [r]\<rparr>))"

definition endpoint :: "state \<Rightarrow> string \<Rightarrow> url" where
  "endpoint s p = Path (base_url s @ p)"

section \<open>Fetching emails\<close>

text \<open>
  Lines 72 to 80 of \<^verbatim>\<open>get_emails\<close>: every required field is written back with its default
  when the record lacks it.
\<close>

definition ensure_fields :: "dict \<Rightarrow> dict" where
  "ensure_fields e0 =
     (let e1 = dict_set e0 ''id'' (get_default e0 ''id'' (JStr ''''));
          e2 = dict_set e1 ''message_id'' (get_default e1 ''message_id'' (JStr ''''));
          e3 = dict_set e2 ''subject'' (get_default e2 ''subject'' (JStr ''''));
          e4 = dict_set e3 ''from_address_email'' (get_default e3 ''from_address_email'' (JStr ''''));
          e5 = dict_set e4 ''from_address_json''
                 (get_default e4 ''from_address_json''
                    (JList [JObj [(''address'', get_default e4 ''from_address_email'' (JStr '''')),
                                  (''name'', JStr '''')]]));
          e6 = dict_set e5 ''to_address_json'' (get_default e5 ''to_address_json'' (JList []));
          e7 = dict_set e6 ''cc_address_json'' (get_default e6 ''cc_address_json'' (JList []));
          e8 = dict_set e7 ''timestamp_created'' (get_none e7 ''timestamp_created'')
      in dict_set e8 ''content_preview'' (get_default e8 ''content_preview'' (JStr '''')))"

text \<open>Lines 126 to 130: the remaining fields.\<close>

definition other_fields :: "dict \<Rightarrow> dict" where
  "other_fields e0 =
     (let e1 = dict_set e0 ''label'' (get_none e0 ''label'');
          e2 = dict_set e1 ''campaign_id'' (get_none e1 ''campaign_id'');
          e3 = dict_set e2 ''lead_id'' (get_none e2 ''lead_id'');
          e4 = dict_set e3 ''thread_id'' (get_none e3 ''thread_id'')
      in dict_set e4 ''is_unread'' (get_default e4 ''is_unread'' (JBool False)))"

text \<open>The body object built from a string or a dictionary (lines 99 to 104 and 115 to 120).\<close>

definition body_of_str :: "string \<Rightarrow> json" where
  "body_of_str b = JObj [(''text'', JStr b), (''html'', JStr b)]"

definition body_of_dict :: "dict \<Rightarrow> json" where
  "body_of_dict b =
     JObj [(''text'', get_default b ''text'' (JStr '''')), (''html'', get_default b ''html'' (JStr ''''))]"

text \<open>Lines 113 to 123: the branch taken in preview mode or without a thread id.\<close>

definition preview_body :: "dict \<Rightarrow> dict" where
  "preview_body e =
     (let e1 = (case get_none e ''body'' of
                  JStr b \<Rightarrow> dict_set e ''body'' (body_of_str b)
                | JObj b \<Rightarrow> dict_set e ''body'' (body_of_dict b)
                | _ \<Rightarrow> dict_set e ''body'' (JObj [(''text'', JStr ''''), (''html'', JStr '''')]))
      in dict_set e1 ''thread'' (JList []))"

text \<open>
  Lines 95 to 105: the scan of the thread for the entry with the record's id. The first
  match ends the scan; its body replaces the record's only when it is a string or a
  dictionary. An entry that is not a dictionary has no \<^verbatim>\<open>get\<close>.
\<close>

fun scan_thread :: "dict \<Rightarrow> json list \<Rightarrow> exn + dict" where
  "scan_thread e [] = Inr e"
| "scan_thread e (JObj t # ts) =
     (if py_eq (get_none t ''id'') (get_none e ''id'')
      then (case get_default t ''body'' (JObj []) of
              JStr b \<Rightarrow> Inr (dict_set e ''body'' (body_of_str b))
            | JObj b \<Rightarrow> Inr (dict_set e ''body'' (body_of_dict b))
            | _ \<Rightarrow> Inr e)
      else scan_thread e ts)"
| "scan_thread e (_ # ts) = Inl AttributeError"

text \<open>
  Lines 83 to 110: the thread expansion of one record. A failure of the thread request
  that is an \<^verbatim>\<open>httpx.HTTPError\<close> is caught and leaves \<^verbatim>\<open>thread = []\<close>; any other exception
  leaves the handler.
\<close>

definition thread_request :: "state \<Rightarrow> json \<Rightarrow> request" where
  "thread_request s tid =
     GET (ThreadPath (base_url s @ ''/unibox/thread/'') tid) (headers s)
       [(''workspace_id'', workspace_id s)]"

definition expand_thread :: "upstream \<Rightarrow> dict \<Rightarrow> state \<Rightarrow> (exn + dict) \<times> state" where
  "expand_thread up e s =
     (case http up (thread_request s (get_none e ''thread_id'')) s of
        (Inr thread_data, s1) \<Rightarrow>
          (case thread_data of
             JObj td \<Rightarrow>
               (let thread = get_default td ''data'' (JList []);
                    e1 = dict_set e ''thread'' thread
                in case py_iter thread of
                     None \<Rightarrow> (Inl TypeError, s1)
                   | Some ts \<Rightarrow> (scan_thread e1 ts, s1))
           | _ \<Rightarrow> (Inl AttributeError, s1))
      | (Inl x, s1) \<Rightarrow>
          (if is_HTTPError x then (Inr (dict_set e ''thread'' (JList [])), s1)
           else (Inl x, s1)))"

text \<open>The body of the loop over the records (lines 70 to 130).\<close>

definition process_email :: "upstream \<Rightarrow> bool \<Rightarrow> json \<Rightarrow> state \<Rightarrow> (exn + json) \<times> state" where
  "process_email up preview_only email s =
     (case email of
        JObj e0 \<Rightarrow>
          (let e = ensure_fields e0
           in if \<not> preview_only \<and> truthy (get_none e ''thread_id'')
              then (case expand_thread up e s of
                      (Inl x, s1) \<Rightarrow> (Inl x, s1)
                    | (Inr e1, s1) \<Rightarrow> (Inr (JObj (other_fields e1)), s1))
              else (Inr (JObj (other_fields (preview_body e))), s))
      | _ \<Rightarrow> (Inl AttributeError, s))"

fun process_list :: "upstream \<Rightarrow> bool \<Rightarrow> json list \<Rightarrow> state \<Rightarrow> (exn + json list) \<times> state" where
  "process_list up preview_only [] s = (Inr [], s)"
| "process_list up preview_only (e # es) s =
     (case process_email up preview_only e s of
        (Inl x, s1) \<Rightarrow> (Inl x, s1)
      | (Inr e', s1) \<Rightarrow>
          (case process_list up preview_only es s1 of
             (Inl x, s2) \<Rightarrow> (Inl x, s2)
           | (Inr es', s2) \<Rightarrow> (Inr (e' # es'), s2)))"

text \<open>
  The loop \<^verbatim>\<open>for email in emails\<close> on whatever \<^verbatim>\<open>data.get("data", [])\<close> is. The records of a
  list are updated in place, so the list of the updated records is what is cached and
  returned. A non-empty string or dictionary yields strings, which have no \<^verbatim>\<open>get\<close>; an
  empty one is returned as it is.
\<close>

definition process_emails :: "upstream \<Rightarrow> bool \<Rightarrow> json \<Rightarrow> state \<Rightarrow> (exn + json) \<times> state" where
  "process_emails up preview_only emails s =
     (case emails of
        JList es \<Rightarrow>
          (case process_list up preview_only es s of
             (Inl x, s1) \<Rightarrow> (Inl x, s1)
           | (Inr es', s1) \<Rightarrow> (Inr (JList es'), s1))
      | _ \<Rightarrow>
          (case py_iter emails of
             None \<Rightarrow> (Inl TypeError, s)
           | Some [] \<Rightarrow> (Inr emails, s)
           | Some (x # xs) \<Rightarrow> (Inl AttributeError, s)))"

text \<open>Line 37: the cache key.\<close>

definition cache_key :: "bool \<Rightarrow> string option \<Rightarrow> string option \<Rightarrow> string \<Rightarrow> string option \<Rightarrow> string" where
  "cache_key preview_only lead_email campaign_id email_type label =
     str_bool preview_only @ '':'' @ str_opt lead_email @ '':'' @ str_opt campaign_id
       @ '':'' @ email_type @ '':'' @ str_opt label"

text \<open>Lines 44 to 54: the query parameters; an absent or empty filter is left out.\<close>

definition opt_param :: "string \<Rightarrow> string option \<Rightarrow> (string \<times> string) list" where
  "opt_param k v = (case v of Some x \<Rightarrow> (if x \<noteq> [] then [(k, x)] else []) | None \<Rightarrow> [])"

definition emails_request :: "state \<Rightarrow> bool \<Rightarrow> string option \<Rightarrow> string option \<Rightarrow> string \<Rightarrow> string option
    \<Rightarrow> request" where
  "emails_request s preview_only lead_email campaign_id email_type label =
     GET (endpoint s ''/unibox/emails'') (headers s)
       ([(''workspace_id'', workspace_id s),
         (''preview_only'', if preview_only then ''true'' else ''false''),
         (''email_type'', email_type)]
        @ opt_param ''lead'' lead_email @ opt_param ''campaign_id'' campaign_id
        @ opt_param ''label'' label)"

text \<open>
  \<^verbatim>\<open>get_emails\<close>. A live cache entry is returned at once. Otherwise the primary request is
  made; every exception leaves the method (an \<^verbatim>\<open>httpx.HTTPError\<close> is logged and raised
  again), and only a complete result is stored in the cache.
\<close>

definition get_emails :: "upstream \<Rightarrow> bool \<Rightarrow> string option \<Rightarrow> string option \<Rightarrow> string \<Rightarrow> string option
    \<Rightarrow> state \<Rightarrow> (exn + json) \<times> state" where
  "get_emails up preview_only lead_email campaign_id email_type label s =
     (let key = cache_key preview_only lead_email campaign_id email_type label
      in case ttl_lookup (email_cache s) (now s) key of
           Some v \<Rightarrow> (Inr v, s\<lparr>email_cache := ttl_touch (email_cache s) key\<rparr>)
         | None \<Rightarrow>
             (case http up (emails_request s preview_only lead_email campaign_id email_type label) s of
                (Inl x, s1) \<Rightarrow> (Inl x, s1)
              | (Inr data, s1) \<Rightarrow>
                  (case data of
                     JObj d \<Rightarrow>
                       (case process_emails up preview_only (get_default d ''data'' (JList [])) s1 of
                          (Inl x, s2) \<Rightarrow> (Inl x, s2)
                        | (Inr emails, s2) \<Rightarrow>
                            (Inr emails,
                             s2\<lparr>email_cache :=
                                  ttl_setitem email_cache_maxsize email_cache_ttl
                                    (email_cache s2) (now s2) key emails\<rparr>))
                   | _ \<Rightarrow> (Inl AttributeError, s1))))"

definition invalidate_email_cache :: "state \<Rightarrow> state" where
  "invalidate_email_cache s = s\<lparr>email_cache := []\<rparr>"

definition invalidate_label_cache :: "state \<Rightarrow> state" where
  "invalidate_label_cache s = s\<lparr>label_cache := []\<rparr>"

section \<open>Sending, campaigns, sequences, tags, leads data, analytics\<close>

text \<open>
  \<^verbatim>\<open>send_email\<close>. The sender is composed from the environment; a non-empty
  \<^verbatim>\<open>reply_to_id\<close> selects the reply call, otherwise a lead is added to the campaign named
  by \<^verbatim>\<open>PIPL_DEFAULT_CAMPAIGN_ID\<close> (\<^verbatim>\<open>None\<close>, sent as null, when the variable is not set).
  Every exception leaves the method.
\<close>

definition sender :: "env \<Rightarrow> string" where
  "sender ev =
     (let sender_email = getenv_default ev ''PIPL_SENDER_EMAIL'' ''noreply@caeros.com'';
          sender_name = getenv_default ev ''PIPL_SENDER_NAME'' ''Diana Moreno''
      in if sender_name \<noteq> [] then sender_name @ '' <'' @ sender_email @ ''>'' else sender_email)"

definition reply_request :: "env \<Rightarrow> state \<Rightarrow> string \<Rightarrow> string \<Rightarrow> string \<Rightarrow> string \<Rightarrow> request" where
  "reply_request ev s to subject body reply_to_id =
     POST (endpoint s ''/unibox/emails/reply'') (headers s)
       (JObj [(''workspace_id'', JStr (workspace_id s)),
              (''reply_to_id'', JStr reply_to_id),
              (''subject'', JStr subject),
              (''to'', JStr to),
              (''body'', JStr body),
              (''from'', JStr (sender ev))])"

definition lead_add_request :: "env \<Rightarrow> state \<Rightarrow> string \<Rightarrow> string \<Rightarrow> string \<Rightarrow> request" where
  "lead_add_request ev s to subject body =
     POST (endpoint s ''/lead/add'') (headers s)
       (JObj [(''workspace_id'', JStr (workspace_id s)),
              (''campaign_id'', json_opt_str (getenv ev ''PIPL_DEFAULT_CAMPAIGN_ID'')),
              (''leads'',
               JList [JObj [(''email'', JStr to),
                            (''custom_variables'',
                             JObj [(''initial_subject'', JStr subject),
                                   (''initial_body'', JStr body)])]])])"

definition send_email :: "upstream \<Rightarrow> env \<Rightarrow> string \<Rightarrow> string \<Rightarrow> string \<Rightarrow> string option \<Rightarrow> state
    \<Rightarrow> (exn + json) \<times> state" where
  "send_email up ev to subject body reply_to_id s =
     (if truthy_str reply_to_id
      then http up (reply_request ev s to subject body (str_opt reply_to_id)) s
      else http up (lead_add_request ev s to subject body) s)"






definition tags_request :: "state \<Rightarrow> request" where
  "tags_request s =
     GET (endpoint s ''/tag/list'') (headers s) [(''workspace_id'', workspace_id s)]"








section \<open>Labels\<close>

definition default_labels :: "json" where
  "default_labels =
     JList [JStr ''INTERESTED'', JStr ''NOT_INTERESTED'', JStr ''MEETING_BOOKED'',
            JStr ''FOLLOW_UP'', JStr ''WRONG_PERSON'', JStr ''QUALIFIED'',
            JStr ''NOT_QUALIFIED'', JStr ''CONTACTED'', JStr ''RESPONDED'',
            JStr ''NO_RESPONSE'']"

text \<open>
  Line 324, the comprehension over the tags: a tag without a truthy name is skipped, a
  name is raised to upper case with its spaces replaced. A tag that is not a dictionary
  has no \<^verbatim>\<open>get\<close>, a truthy name that is not a string has no \<^verbatim>\<open>upper\<close>.
\<close>

fun derive_labels :: "json list \<Rightarrow> exn + json list" where
  "derive_labels [] = Inr []"
| "derive_labels (JObj t # ts) =
     (if truthy (get_none t ''name'')
      then (case get_default t ''name'' (JStr '''') of
              JStr n \<Rightarrow>
                (case derive_labels ts of
                   Inl x \<Rightarrow> Inl x
                 | Inr ls \<Rightarrow> Inr (JStr (replace_char CHR '' '' CHR ''_'' (upper n)) # ls))
            | _ \<Rightarrow> Inl AttributeError)
      else derive_labels ts)"
| "derive_labels (_ # ts) = Inl AttributeError"

definition labels_request :: "state \<Rightarrow> request" where
  "labels_request s =
     GET (endpoint s ''/unibox/labels'') (headers s) [(''workspace_id'', workspace_id s)]"

definition store_labels :: "json \<Rightarrow> state \<Rightarrow> (exn + json) \<times> state" where
  "store_labels labels s =
     (Inr labels,
      s\<lparr>label_cache :=
          ttl_setitem label_cache_maxsize label_cache_ttl (label_cache s) (now s) ''labels'' labels\<rparr>)"

text \<open>
  Lines 316 to 326: the second tier, entered from the handler of a 404 of the labels
  endpoint. Its exceptions reach the outer handler.
\<close>

definition labels_from_tags :: "upstream \<Rightarrow> state \<Rightarrow> (exn + json) \<times> state" where
  "labels_from_tags up s =
     (case http up (tags_request s) s of
        (Inl x, s1) \<Rightarrow> (Inl x, s1)
      | (Inr tags, s1) \<Rightarrow>
          (case py_iter tags of
             None \<Rightarrow> (Inl TypeError, s1)
           | Some ts \<Rightarrow>
               (case derive_labels ts of
                  Inl x \<Rightarrow> (Inl x, s1)
                | Inr ls \<Rightarrow> store_labels (JList ls) s1)))"

text \<open>Lines 304 to 327: the inner \<^verbatim>\<open>try\<close> with its \<^verbatim>\<open>HTTPStatusError\<close> handler.\<close>

definition labels_inner :: "upstream \<Rightarrow> state \<Rightarrow> (exn + json) \<times> state" where
  "labels_inner up s =
     (case http up (labels_request s) s of
        (Inr j, s1) \<Rightarrow>
          (case j of
             JObj d \<Rightarrow> store_labels (get_default d ''labels'' (JList [])) s1
           | _ \<Rightarrow> (Inl AttributeError, s1))
      | (Inl (HTTPStatusError c), s1) \<Rightarrow>
          (if c = 404 then labels_from_tags up s1 else (Inl (HTTPStatusError c), s1))
      | (Inl x, s1) \<Rightarrow> (Inl x, s1))"

text \<open>
  \<^verbatim>\<open>get_labels\<close>: the cache, then the inner block, then the outer handler, which stores
  and returns the default labels on any \<^verbatim>\<open>httpx.HTTPError\<close>.
\<close>

definition get_labels :: "upstream \<Rightarrow> state \<Rightarrow> (exn + json) \<times> state" where
  "get_labels up s =
     (case ttl_lookup (label_cache s) (now s) ''labels'' of
        Some v \<Rightarrow> (Inr v, s\<lparr>label_cache := ttl_touch (label_cache s) ''labels''\<rparr>)
      | None \<Rightarrow>
          (case labels_inner up s of
             (Inl x, s1) \<Rightarrow>
               (if is_HTTPError x then store_labels default_labels s1 else (Inl x, s1))
           | (Inr labels, s1) \<Rightarrow> (Inr labels, s1)))"

section \<open>Leads\<close>

text \<open>The arguments of \<^verbatim>\<open>get_leads\<close>, with the defaults of its signature.\<close>

record leads_query =
  q_campaign_id :: "string option"
  q_status :: "string option"
  q_label :: "string option"
  q_email :: "string option"
  q_first_name :: "string option"
  q_last_name :: "string option"
  q_page :: "int option"
  q_limit :: "int option"
  q_sort :: "string option"
  q_direction :: "string option"

definition default_query :: leads_query where
  "default_query =
     \<lparr> q_campaign_id = None, q_status = None, q_label = None, q_email = None,
       q_first_name = None, q_last_name = None, q_page = Some 1, q_limit = Some 10,
       q_sort = Some ''_id'', q_direction = Some ''asc'' \<rparr>"

definition opt_int_param :: "string \<Rightarrow> int option \<Rightarrow> (string \<times> string) list" where
  "opt_int_param k v = (case v of Some i \<Rightarrow> (if i \<noteq> 0 then [(k, str_int i)] else []) | None \<Rightarrow> [])"

definition leads_request :: "state \<Rightarrow> leads_query \<Rightarrow> request" where
  "leads_request s q =
     GET (endpoint s ''/lead/workspace-leads'') (headers s)
       ([(''workspace_id'', workspace_id s)]
        @ opt_param ''campaign_id'' (q_campaign_id q) @ opt_param ''status'' (q_status q)
        @ opt_param ''label'' (q_label q) @ opt_param ''email'' (q_email q)
        @ opt_param ''first_name'' (q_first_name q) @ opt_param ''last_name'' (q_last_name q)
        @ opt_int_param ''page'' (q_page q) @ opt_int_param ''limit'' (q_limit q)
        @ opt_param ''sort'' (q_sort q) @ opt_param ''direction'' (q_direction q))"

text \<open>The envelope built at lines 436, 445, 454 and 465.\<close>

definition leads_page :: "json list \<Rightarrow> leads_query \<Rightarrow> json" where
  "leads_page items q =
     JObj [(''data'', JList items), (''total'', JInt (int (length items))),
           (''page'', json_opt_int (q_page q)), (''limit'', json_opt_int (q_limit q))]"

text \<open>
  Lines 429 to 459: the four shapes. In the first branch the log line takes the length of
  \<^verbatim>\<open>data['data']\<close> before the payload is returned, a TypeError when that value has no
  length.
\<close>

definition shape_leads :: "json \<Rightarrow> leads_query \<Rightarrow> exn + json" where
  "shape_leads data q =
     (case data of
        JObj d \<Rightarrow>
          (case map_of d ''data'' of
             Some inner \<Rightarrow> (case py_len inner of None \<Rightarrow> Inl TypeError | Some n \<Rightarrow> Inr data)
           | None \<Rightarrow>
               (case map_of d ''_id'' of
                  Some i \<Rightarrow> Inr (leads_page [data] q)
                | None \<Rightarrow> Inr (leads_page [] q)))
      | JList items \<Rightarrow> Inr (leads_page items q)
      | _ \<Rightarrow> Inr (leads_page [] q))"

text \<open>
  \<^verbatim>\<open>get_leads\<close>: an \<^verbatim>\<open>httpx.HTTPError\<close> anywhere in the block becomes the empty page, any
  other exception leaves the method.
\<close>

definition get_leads :: "upstream \<Rightarrow> leads_query \<Rightarrow> state \<Rightarrow> (exn + json) \<times> state" where
  "get_leads up q s =
     (case http up (leads_request s q) s of
        (Inl x, s1) \<Rightarrow> (if is_HTTPError x then (Inr (leads_page [] q), s1) else (Inl x, s1))
      | (Inr data, s1) \<Rightarrow> (shape_leads data q, s1))"

text \<open>
  A valid LeadsPage: a dictionary with the keys \<^verbatim>\<open>data\<close>, \<^verbatim>\<open>total\<close>, \<^verbatim>\<open>page\<close> and
  \<^verbatim>\<open>limit\<close>, whose data is a sequence and whose total is an integer.
\<close>

definition is_leads_page :: "json \<Rightarrow> bool" where
  "is_leads_page j =
     (case j of
        JObj d \<Rightarrow>
          (case (map_of d ''data'', map_of d ''total'', map_of d ''page'', map_of d ''limit'') of
             (Some (JList items), Some (JInt n), Some p, Some l) \<Rightarrow> True
           | _ \<Rightarrow> False)
      | _ \<Rightarrow> False)"

section \<open>Concrete environments\<close>

text \<open>
  An environment with no variable set, a provider that gives every request the same answer
  at once, and a provider that answers the requests in turn from a script (and fails once
  the script is used up).
\<close>

definition no_env :: env where
  "no_env k = None"

definition up_const :: "exn + json \<Rightarrow> upstream" where
  "up_const r h q = (r, 0)"

definition up_script :: "(exn + json) list \<Rightarrow> upstream" where
  "up_script rs h q = (if length h < length rs then (rs ! length h, 1) else (Inl RequestError, 1))"

definition s0 :: state where
  "s0 = init no_env 0"

text \<open>
  A provider whose thread endpoint is down: every request for a thread fails, every other
  request is answered with the given payload.
\<close>

definition up_threads_down :: "json \<Rightarrow> upstream" where
  "up_threads_down j h r =
     (case r of
        GET (ThreadPath b t) hs ps \<Rightarrow> (Inl RequestError, 1)
      | _ \<Rightarrow> (Inr j, 1))"

section \<open>Basic facts\<close>

lemma map_of_dict_set: "map_of (dict_set d k v) k' = (if k' = k then Some v else map_of d k')"
  by (induction d) auto

lemma get_default_dict_set:
  "get_default (dict_set d k v) k' dflt = (if k' = k then v else get_default d k' dflt)"
  by (simp add: get_default_def map_of_dict_set)

lemma get_none_dict_set: "get_none (dict_set d k v) k' = (if k' = k then v else get_none d k')"
  by (simp add: get_none_def get_default_dict_set)

section \<open>Leads: the shapes of the upstream answer\<close>

lemma get_leads_result:
  "fst (get_leads up q s) =
     (case fst (up (calls s) (leads_request s q)) of
        Inl x \<Rightarrow> if is_HTTPError x then Inr (leads_page [] q) else Inl x
      | Inr data \<Rightarrow> shape_leads data q)"
  by (simp add: get_leads_def http_def split: prod.splits sum.splits)

lemma is_leads_page_leads_page: "is_leads_page (leads_page items q)"
  by (simp add: is_leads_page_def leads_page_def)

lemma shape_leads_no_data:
  "\<forall>d. j = JObj d \<longrightarrow> map_of d ''data'' = None \<Longrightarrow> \<exists>items. shape_leads j q = Inr (leads_page items q)"
  by (cases j) (auto simp: shape_leads_def split: option.splits)

lemma shape_leads_other:
  "\<forall>items. j \<noteq> JList items \<Longrightarrow>
   \<forall>d. j = JObj d \<longrightarrow> map_of d ''data'' = None \<and> map_of d ''_id'' = None \<Longrightarrow>
   shape_leads j q = Inr (leads_page [] q)"
  by (cases j) (auto simp: shape_leads_def split: option.splits)

text \<open>
  C2, as stated, asks that \<^verbatim>\<open>get_leads\<close> always returns a valid LeadsPage. It does not: a
  dictionary that has a \<^verbatim>\<open>data\<close> key is handed back as it came. With the default query and
  the upstream answer \<^verbatim>\<open>{"data": []}\<close> the result is \<^verbatim>\<open>{"data": []}\<close>, which has no
  \<^verbatim>\<open>total\<close>, \<^verbatim>\<open>page\<close> or \<^verbatim>\<open>limit\<close>.
\<close>

theorem get_leads_envelope_counterexample:
  "fst (get_leads (up_const (Inr (JObj [(''data'', JList [])]))) default_query s0)
     = Inr (JObj [(''data'', JList [])])
   \<and> \<not> is_leads_page (JObj [(''data'', JList [])])"
  by (simp add: get_leads_def http_def up_const_def shape_leads_def is_leads_page_def)

text \<open>
  C2, amended. Let \<open>res\<close> be what the upstream request of \<^verbatim>\<open>get_leads\<close> gives.
  \<^item> If it raises an \<^verbatim>\<open>httpx.HTTPError\<close>, the result is the empty page
    \<^verbatim>\<open>{data: [], total: 0, page: requestedPage, limit: requestedLimit}\<close>.
  \<^item> If it is a bare list of N items, the result is
    \<^verbatim>\<open>{data: the items, total: N, page: requestedPage, limit: requestedLimit}\<close>.
  \<^item> If it is a dictionary whose \<^verbatim>\<open>data\<close> is a list, that dictionary is returned unchanged,
    whatever its other keys are.
  \<^item> If it is a dictionary without \<^verbatim>\<open>data\<close> but with \<^verbatim>\<open>_id\<close>, the result is the one-element
    page holding it.
  \<^item> Any other payload that is neither a list nor a dictionary with one of these two keys
    gives the empty page.
  \<^item> In every case but the pass-through of a dictionary with a \<^verbatim>\<open>data\<close> key, the call
    returns and its result is a valid LeadsPage.
\<close>

theorem get_leads_shapes:
  assumes "fst (up (calls s) (leads_request s q)) = res"
  shows "(\<forall>x. res = Inl x \<and> is_HTTPError x \<longrightarrow>
            fst (get_leads up q s) =
              Inr (JObj [(''data'', JList []), (''total'', JInt 0),
                         (''page'', json_opt_int (q_page q)), (''limit'', json_opt_int (q_limit q))]))
       \<and> (\<forall>items. res = Inr (JList items) \<longrightarrow>
            fst (get_leads up q s) =
              Inr (JObj [(''data'', JList items), (''total'', JInt (int (length items))),
                         (''page'', json_opt_int (q_page q)), (''limit'', json_opt_int (q_limit q))]))
       \<and> (\<forall>d items. res = Inr (JObj d) \<and> map_of d ''data'' = Some (JList items) \<longrightarrow>
            fst (get_leads up q s) = Inr (JObj d))
       \<and> (\<forall>d i. res = Inr (JObj d) \<and> map_of d ''data'' = None \<and> map_of d ''_id'' = Some i \<longrightarrow>
            fst (get_leads up q s) =
              Inr (JObj [(''data'', JList [JObj d]), (''total'', JInt 1),
                         (''page'', json_opt_int (q_page q)), (''limit'', json_opt_int (q_limit q))]))
       \<and> (\<forall>j. res = Inr j \<and> (\<forall>items. j \<noteq> JList items)
               \<and> (\<forall>d. j = JObj d \<longrightarrow> map_of d ''data'' = None \<and> map_of d ''_id'' = None) \<longrightarrow>
            fst (get_leads up q s) =
              Inr (JObj [(''data'', JList []), (''total'', JInt 0),
                         (''page'', json_opt_int (q_page q)), (''limit'', json_opt_int (q_limit q))]))
       \<and> ((\<exists>x. res = Inl x \<and> is_HTTPError x) \<or>
          (\<exists>j. res = Inr j \<and> (\<forall>d. j = JObj d \<longrightarrow> map_of d ''data'' = None)) \<longrightarrow>
            (\<exists>page. fst (get_leads up q s) = Inr page \<and> is_leads_page page))"
proof (intro conjI allI impI)
  fix x assume "res = Inl x \<and> is_HTTPError x"
  then show "fst (get_leads up q s) =
      Inr (JObj [(''data'', JList []), (''total'', JInt 0),
                 (''page'', json_opt_int (q_page q)), (''limit'', json_opt_int (q_limit q))])"
    using assms by (simp add: get_leads_result leads_page_def)
next
  fix items assume "res = Inr (JList items)"
  then show "fst (get_leads up q s) =
      Inr (JObj [(''data'', JList items), (''total'', JInt (int (length items))),
                 (''page'', json_opt_int (q_page q)), (''limit'', json_opt_int (q_limit q))])"
    using assms by (simp add: get_leads_result shape_leads_def leads_page_def)
next
  fix d items assume "res = Inr (JObj d) \<and> map_of d ''data'' = Some (JList items)"
  then show "fst (get_leads up q s) = Inr (JObj d)"
    using assms by (simp add: get_leads_result shape_leads_def)
next
  fix d i assume "res = Inr (JObj d) \<and> map_of d ''data'' = None \<and> map_of d ''_id'' = Some i"
  then show "fst (get_leads up q s) =
      Inr (JObj [(''data'', JList [JObj d]), (''total'', JInt 1),
                 (''page'', json_opt_int (q_page q)), (''limit'', json_opt_int (q_limit q))])"
    using assms by (simp add: get_leads_result shape_leads_def leads_page_def)
next
  fix j assume "res = Inr j \<and> (\<forall>items. j \<noteq> JList items)
               \<and> (\<forall>d. j = JObj d \<longrightarrow> map_of d ''data'' = None \<and> map_of d ''_id'' = None)"
  then show "fst (get_leads up q s) =
      Inr (JObj [(''data'', JList []), (''total'', JInt 0),
                 (''page'', json_opt_int (q_page q)), (''limit'', json_opt_int (q_limit q))])"
    using assms shape_leads_other[of j q] by (simp add: get_leads_result leads_page_def)
next
  assume h: "(\<exists>x. res = Inl x \<and> is_HTTPError x) \<or>
          (\<exists>j. res = Inr j \<and> (\<forall>d. j = JObj d \<longrightarrow> map_of d ''data'' = None))"
  show "\<exists>page. fst (get_leads up q s) = Inr page \<and> is_leads_page page"
  proof (cases res)
    case (Inl x)
    with h assms show ?thesis by (auto simp: get_leads_result is_leads_page_leads_page)
  next
    case (Inr j)
    with h have "\<forall>d. j = JObj d \<longrightarrow> map_of d ''data'' = None" by simp
    from shape_leads_no_data[OF this, of q] obtain items
      where "shape_leads j q = Inr (leads_page items q)" by blast
    with Inr assms show ?thesis by (simp add: get_leads_result is_leads_page_leads_page)
  qed
qed

text \<open>
  The five shapes at concrete answers: a bare list of two items, a transport failure, an
  enveloped page, a single lead and a string.
\<close>

theorem get_leads_shapes_witness:
  "fst (get_leads (up_const (Inr (JList [JInt 7, JInt 8]))) default_query s0) =
     Inr (JObj [(''data'', JList [JInt 7, JInt 8]), (''total'', JInt 2),
                (''page'', JInt 1), (''limit'', JInt 10)])
   \<and> fst (get_leads (up_const (Inl RequestError)) default_query s0) =
     Inr (JObj [(''data'', JList []), (''total'', JInt 0), (''page'', JInt 1), (''limit'', JInt 10)])
   \<and> fst (get_leads (up_const (Inr (JObj [(''data'', JList [JInt 7]), (''total'', JInt 40)])))
            default_query s0) =
     Inr (JObj [(''data'', JList [JInt 7]), (''total'', JInt 40)])
   \<and> fst (get_leads (up_const (Inr (JObj [(''_id'', JStr ''L1'')]))) default_query s0) =
     Inr (JObj [(''data'', JList [JObj [(''_id'', JStr ''L1'')]]), (''total'', JInt 1),
                (''page'', JInt 1), (''limit'', JInt 10)])
   \<and> fst (get_leads (up_const (Inr (JStr ''busy''))) default_query s0) =
     Inr (JObj [(''data'', JList []), (''total'', JInt 0), (''page'', JInt 1), (''limit'', JInt 10)])"
  using get_leads_shapes[of "up_const (Inr (JList [JInt 7, JInt 8]))" s0 default_query
          "Inr (JList [JInt 7, JInt 8])"]
        get_leads_shapes[of "up_const (Inl RequestError)" s0 default_query "Inl RequestError"]
        get_leads_shapes[of "up_const (Inr (JObj [(''data'', JList [JInt 7]), (''total'', JInt 40)]))"
          s0 default_query "Inr (JObj [(''data'', JList [JInt 7]), (''total'', JInt 40)])"]
        get_leads_shapes[of "up_const (Inr (JObj [(''_id'', JStr ''L1'')]))" s0 default_query
          "Inr (JObj [(''_id'', JStr ''L1'')])"]
        get_leads_shapes[of "up_const (Inr (JStr ''busy''))" s0 default_query "Inr (JStr ''busy'')"]
  by (simp add: up_const_def default_query_def)

section \<open>Propagate or degrade\<close>

lemma fst_http: "fst (http up r s) = fst (up (calls s) r)"
  by (simp add: http_def split: prod.splits)

lemma snd_http: "snd (http up r s) = s\<lparr>now := now s + snd (up (calls s) r), calls := calls s @ [r]\<rparr>"
  by (simp add: http_def split: prod.splits)




section \<open>Sending\<close>

text \<open>
  C7. \<^verbatim>\<open>send_email\<close> makes exactly one upstream request. With a (non-empty) \<^verbatim>\<open>reply_to_id\<close>
  it is the reply call, carrying the id, subject, recipient, body and sender; otherwise it
  is the lead-creation call, carrying the subject and body as the custom variables
  \<^verbatim>\<open>initial_subject\<close> and \<^verbatim>\<open>initial_body\<close> of the lead, under the campaign id read from
  \<^verbatim>\<open>PIPL_DEFAULT_CAMPAIGN_ID\<close>. In either mode, whatever exception the request raises is
  what \<^verbatim>\<open>send_email\<close> raises: no default value is returned.
\<close>

theorem send_email_modes:
  "(reply_to_id = Some r \<and> r \<noteq> [] \<longrightarrow>
      calls (snd (send_email up ev to subject body reply_to_id s)) =
        calls s @ [POST (Path (base_url s @ ''/unibox/emails/reply'')) (headers s)
                     (JObj [(''workspace_id'', JStr (workspace_id s)),
                            (''reply_to_id'', JStr r),
                            (''subject'', JStr subject),
                            (''to'', JStr to),
                            (''body'', JStr body),
                            (''from'', JStr (sender ev))])])
   \<and> (reply_to_id = None \<or> reply_to_id = Some [] \<longrightarrow>
      calls (snd (send_email up ev to subject body reply_to_id s)) =
        calls s @ [POST (Path (base_url s @ ''/lead/add'')) (headers s)
                     (JObj [(''workspace_id'', JStr (workspace_id s)),
                            (''campaign_id'', json_opt_str (ev ''PIPL_DEFAULT_CAMPAIGN_ID'')),
                            (''leads'',
                             JList [JObj [(''email'', JStr to),
                                          (''custom_variables'',
                                           JObj [(''initial_subject'', JStr subject),
                                                 (''initial_body'', JStr body)])]])])])
   \<and> (\<forall>x. fst (up (calls s) (last (calls (snd (send_email up ev to subject body reply_to_id s))))) = Inl x
          \<longrightarrow> fst (send_email up ev to subject body reply_to_id s) = Inl x)"
  by (auto simp: send_email_def snd_http fst_http reply_request_def lead_add_request_def
        endpoint_def getenv_def)

text \<open>
  A reply and a new email against a provider that is unreachable: each makes its one
  request and raises.
\<close>

theorem send_email_modes_witness:
  "calls (snd (send_email (up_const (Inl RequestError)) no_env ''lp@fund.com'' ''Re: Q3'' ''Thanks''
                (Some ''m42'') s0)) =
     [POST (Path ''https://api.pipl.ai/api/v1/unibox/emails/reply'')
        [(''x-api-key'', ''6fc126c4-04e5c9d5-87b13817-eedc8acc''), (''Content-Type'', ''application/json'')]
        (JObj [(''workspace_id'', JStr ''67bd12283f02ce58fa6fb65d''),
               (''reply_to_id'', JStr ''m42''),
               (''subject'', JStr ''Re: Q3''),
               (''to'', JStr ''lp@fund.com''),
               (''body'', JStr ''Thanks''),
               (''from'', JStr ''Diana Moreno <noreply@caeros.com>'')])]
   \<and> fst (send_email (up_const (Inl RequestError)) no_env ''lp@fund.com'' ''Re: Q3'' ''Thanks''
            (Some ''m42'') s0) = Inl RequestError
   \<and> fst (send_email (up_const (Inl RequestError)) no_env ''lp@fund.com'' ''Q3'' ''Hello'' None s0)
       = Inl RequestError"
  using send_email_modes[of "Some ''m42''" "''m42''" "up_const (Inl RequestError)" no_env
          "''lp@fund.com''" "''Re: Q3''" "''Thanks''" s0]
        send_email_modes[of None "''''" "up_const (Inl RequestError)" no_env
          "''lp@fund.com''" "''Q3''" "''Hello''" s0]
  by (simp add: up_const_def s0_def init_def no_env_def getenv_default_def sender_def Let_def)

section \<open>Configuration\<close>

text \<open>
  C6, as stated, asks for a configuration error when the default campaign id is not
  configured. There is none: with no variable set, a new email goes out with
  \<^verbatim>\<open>campaign_id\<close> null, and \<^verbatim>\<open>send_email\<close> returns the answer of the provider.
\<close>

theorem send_email_no_campaign_counterexample:
  "getenv no_env ''PIPL_DEFAULT_CAMPAIGN_ID'' = None
   \<and> fst (send_email (up_const (Inr (JObj [(''status'', JStr ''ok'')]))) no_env
            ''lp@fund.com'' ''Q3'' ''Hello'' None s0) = Inr (JObj [(''status'', JStr ''ok'')])
   \<and> calls (snd (send_email (up_const (Inr (JObj [(''status'', JStr ''ok'')]))) no_env
                   ''lp@fund.com'' ''Q3'' ''Hello'' None s0)) =
       [POST (Path ''https://api.pipl.ai/api/v1/lead/add'')
          [(''x-api-key'', ''6fc126c4-04e5c9d5-87b13817-eedc8acc''), (''Content-Type'', ''application/json'')]
          (JObj [(''workspace_id'', JStr ''67bd12283f02ce58fa6fb65d''),
                 (''campaign_id'', JNull),
                 (''leads'',
                  JList [JObj [(''email'', JStr ''lp@fund.com''),
                               (''custom_variables'',
                                JObj [(''initial_subject'', JStr ''Q3''),
                                      (''initial_body'', JStr ''Hello'')])]])])]"
  by (simp add: send_email_def http_def up_const_def lead_add_request_def endpoint_def
        getenv_def no_env_def s0_def init_def getenv_default_def Let_def)

text \<open>
  C6, amended. No operation raises a configuration error. When \<^verbatim>\<open>PIPL_API_KEY\<close> is not set,
  the gateway is built with the literal key of the source, which is the key its headers
  carry; when \<^verbatim>\<open>PIPL_WORKSPACE_ID\<close> is not set, with the literal workspace id. When
  \<^verbatim>\<open>PIPL_DEFAULT_CAMPAIGN_ID\<close> is not set, a new email (no \<^verbatim>\<open>reply_to_id\<close>) is sent as one
  lead-creation request whose \<^verbatim>\<open>campaign_id\<close> is null, and the outcome of \<^verbatim>\<open>send_email\<close> is
  the outcome of that request.
\<close>

theorem config_absent_defaults:
  "(ev ''PIPL_API_KEY'' = None \<longrightarrow>
      api_key (init ev t) = ''6fc126c4-04e5c9d5-87b13817-eedc8acc''
      \<and> headers (init ev t) = [(''x-api-key'', ''6fc126c4-04e5c9d5-87b13817-eedc8acc''),
                               (''Content-Type'', ''application/json'')])
   \<and> (ev ''PIPL_WORKSPACE_ID'' = None \<longrightarrow> workspace_id (init ev t) = ''67bd12283f02ce58fa6fb65d'')
   \<and> (ev ''PIPL_DEFAULT_CAMPAIGN_ID'' = None \<and> \<not> truthy_str reply_to_id \<longrightarrow>
        calls (snd (send_email up ev to subject body reply_to_id s)) =
          calls s @ [POST (Path (base_url s @ ''/lead/add'')) (headers s)
                       (JObj [(''workspace_id'', JStr (workspace_id s)),
                              (''campaign_id'', JNull),
                              (''leads'',
                               JList [JObj [(''email'', JStr to),
                                            (''custom_variables'',
                                             JObj [(''initial_subject'', JStr subject),
                                                   (''initial_body'', JStr body)])]])])]
        \<and> fst (send_email up ev to subject body reply_to_id s) =
            fst (up (calls s) (lead_add_request ev s to subject body)))"
  by (simp add: init_def getenv_default_def send_email_def snd_http fst_http
        lead_add_request_def endpoint_def getenv_def Let_def)

text \<open>The gateway built with no variable set, and a new email sent through it.\<close>

theorem config_absent_defaults_witness:
  "api_key (init no_env 0) = ''6fc126c4-04e5c9d5-87b13817-eedc8acc''
   \<and> workspace_id (init no_env 0) = ''67bd12283f02ce58fa6fb65d''
   \<and> fst (send_email (up_const (Inr (JBool True))) no_env ''lp@fund.com'' ''Q3'' ''Hello'' None s0)
       = Inr (JBool True)"
  using config_absent_defaults[of no_env 0 None "up_const (Inr (JBool True))" "''lp@fund.com''"
          "''Q3''" "''Hello''" s0]
  by (simp add: no_env_def up_const_def)

section \<open>The cache\<close>

lemma map_of_filter_other: "map_of (filter (\<lambda>e. fst e \<noteq> k) c) k = None"
  by (induction c) auto

lemma map_of_filter_same: "map_of (filter (\<lambda>e. fst e = k) c) k = map_of c k"
  by (induction c) auto

lemma map_of_ttl_touch: "map_of (ttl_touch c k) k = map_of c k"
  by (simp add: ttl_touch_def map_of_append map_add_def map_of_filter_other map_of_filter_same
           split: option.splits)

lemma ttl_lookup_touch: "ttl_lookup (ttl_touch c k) t k = ttl_lookup c t k"
  by (simp add: ttl_lookup_def map_of_ttl_touch)

lemma map_of_append_new: "map_of xs k = None \<Longrightarrow> map_of (xs @ [(k, v)]) k = Some v"
  by (induction xs) auto

lemma map_of_drop_None: "map_of xs k = None \<Longrightarrow> map_of (drop n xs) k = None"
  by (metis map_of_eq_None_iff set_drop_subset image_mono subsetD)

lemma map_of_ttl_setitem: "map_of (ttl_setitem m ttl c t k v) k = Some (v, t + ttl)"
proof -
  let ?live = "filter (\<lambda>e. t < snd (snd e)) c"
  show ?thesis
  proof (cases "k \<in> set (map fst ?live)")
    case True
    then have "ttl_setitem m ttl c t k v = filter (\<lambda>e. fst e \<noteq> k) ?live @ [(k, v, t + ttl)]"
      by (simp add: ttl_setitem_def Let_def)
    then show ?thesis
      by (simp only: map_of_append_new[OF map_of_filter_other])
  next
    case False
    then have "map_of ?live k = None" by (simp add: map_of_eq_None_iff)
    then have "map_of (drop (Suc (length ?live) - m) ?live) k = None" by (rule map_of_drop_None)
    then have "map_of (drop (Suc (length ?live) - m) ?live @ [(k, v, t + ttl)]) k = Some (v, t + ttl)"
      by (rule map_of_append_new)
    moreover from False
    have "ttl_setitem m ttl c t k v = drop (Suc (length ?live) - m) ?live @ [(k, v, t + ttl)]"
      by (simp add: ttl_setitem_def Let_def)
    ultimately show ?thesis by (simp only:)
  qed
qed

lemma ttl_lookup_setitem:
  "ttl_lookup (ttl_setitem m ttl c t k v) t' k = (if t' < t + ttl then Some v else None)"
  by (simp add: ttl_lookup_def map_of_ttl_setitem)

lemma ttl_lookup_SomeD:
  "ttl_lookup c t k = Some v \<Longrightarrow> \<exists>expires. map_of c k = Some (v, expires) \<and> t < expires"
  by (auto simp: ttl_lookup_def split: option.splits if_splits)

section \<open>Labels: the fallback chain\<close>


lemma http_config:
  "base_url (snd (http up r s)) = base_url s"
  "headers (snd (http up r s)) = headers s"
  "workspace_id (snd (http up r s)) = workspace_id s"
  "email_cache (snd (http up r s)) = email_cache s"
  "label_cache (snd (http up r s)) = label_cache s"
  "calls (snd (http up r s)) = calls s @ [r]"
  by (simp_all add: snd_http)


lemma fst_store_labels: "fst (store_labels v s) = Inr v"
  by (simp add: store_labels_def)

lemma calls_store_labels: "calls (snd (store_labels v s)) = calls s"
  by (simp add: store_labels_def)


lemma labels_inner_unfold:
  "labels_inner up s =
     (case fst (up (calls s) (labels_request s)) of
        Inr j \<Rightarrow>
          (case j of
             JObj d \<Rightarrow> store_labels (get_default d ''labels'' (JList [])) (snd (http up (labels_request s) s))
           | _ \<Rightarrow> (Inl AttributeError, snd (http up (labels_request s) s)))
      | Inl x \<Rightarrow>
          (if x = HTTPStatusError 404 then labels_from_tags up (snd (http up (labels_request s) s))
           else (Inl x, snd (http up (labels_request s) s))))"
  by (cases "up (calls s) (labels_request s)")
     (auto simp: labels_inner_def http_def split: sum.splits exn.splits json.splits)

lemma get_labels_miss:
  "ttl_lookup (label_cache s) (now s) ''labels'' = None \<Longrightarrow>
   get_labels up s =
     (case labels_inner up s of
        (Inl x, s1) \<Rightarrow> if is_HTTPError x then store_labels default_labels s1 else (Inl x, s1)
      | (Inr labels, s1) \<Rightarrow> (Inr labels, s1))"
  by (simp add: get_labels_def)



section \<open>Labels: what a call leaves in the cache\<close>

lemma store_labels_stored:
  "store_labels w s = (Inr v, s1) \<Longrightarrow> \<exists>s'. s1 = snd (store_labels v s')"
  by (auto simp: store_labels_def)

lemma labels_from_tags_stored:
  "labels_from_tags up s = (Inr v, s1) \<Longrightarrow> \<exists>s'. s1 = snd (store_labels v s')"
  by (auto simp: labels_from_tags_def split: prod.splits sum.splits option.splits
           dest: store_labels_stored)

lemma labels_inner_stored:
  "labels_inner up s = (Inr v, s1) \<Longrightarrow> \<exists>s'. s1 = snd (store_labels v s')"
  by (auto simp: labels_inner_def split: prod.splits sum.splits json.splits exn.splits if_splits
           dest: labels_from_tags_stored store_labels_stored)

lemma get_labels_miss_stored:
  assumes "ttl_lookup (label_cache s) (now s) ''labels'' = None"
      and "get_labels up s = (Inr v, s1)"
  shows "\<exists>s'. s1 = snd (store_labels v s')"
proof (cases "labels_inner up s")
  case (Pair r s')
  show ?thesis
  proof (cases r)
    case (Inl x)
    with Pair assms have "s1 = snd (store_labels default_labels s') \<and> v = default_labels"
      by (auto simp: get_labels_miss store_labels_def split: if_splits)
    then show ?thesis by blast
  next
    case (Inr w)
    with Pair assms have "labels_inner up s = (Inr v, s1)"
      by (simp add: get_labels_miss)
    then show ?thesis by (rule labels_inner_stored)
  qed
qed

lemma store_labels_entry:
  "map_of (label_cache (snd (store_labels v s))) ''labels'' = Some (v, now s + label_cache_ttl)"
  "now (snd (store_labels v s)) = now s"
  by (simp_all add: store_labels_def map_of_ttl_setitem)

lemma get_labels_hit:
  assumes "map_of (label_cache s) ''labels'' = Some (v, expires)" and "now s + d < expires"
  shows "fst (get_labels up (advance d s)) = Inr v"
    and "calls (snd (get_labels up (advance d s))) = calls s"
  using assms by (simp_all add: get_labels_def advance_def ttl_lookup_def)

text \<open>
  C10. Whenever \<^verbatim>\<open>get_labels\<close> returns a list \<open>v\<close>, the label cache holds \<open>v\<close> under the
  key \<^verbatim>\<open>labels\<close> with an expiry time still ahead; when the call did not find a live entry
  itself (so \<open>v\<close> came from the labels endpoint, from the tags, or is the default list put
  in place of a failure), the expiry is 3600 seconds after the moment of return. Until
  that expiry, every later call returns \<open>v\<close> and makes no upstream request, whatever the
  provider would answer by then.
\<close>

theorem get_labels_sticky:
  assumes ret: "get_labels up s = (Inr v, s1)"
  shows "\<exists>expires. map_of (label_cache s1) ''labels'' = Some (v, expires) \<and> now s1 < expires
           \<and> (ttl_lookup (label_cache s) (now s) ''labels'' = None \<longrightarrow> expires = now s1 + 3600)
           \<and> (\<forall>up' d. now s1 + d < expires \<longrightarrow>
                 fst (get_labels up' (advance d s1)) = Inr v
                 \<and> calls (snd (get_labels up' (advance d s1))) = calls s1)"
proof (cases "ttl_lookup (label_cache s) (now s) ''labels''")
  case None
  from get_labels_miss_stored[OF None ret] obtain s' where s1: "s1 = snd (store_labels v s')"
    by blast
  have entry: "map_of (label_cache s1) ''labels'' = Some (v, now s1 + 3600)"
    by (simp add: s1 store_labels_entry label_cache_ttl_def)
  show ?thesis
    using entry get_labels_hit[OF entry] by auto
next
  case (Some w)
  with ret have v: "w = v" and s1: "s1 = s\<lparr>label_cache := ttl_touch (label_cache s) ''labels''\<rparr>"
    by (simp_all add: get_labels_def)
  from Some v obtain expires
    where e: "map_of (label_cache s) ''labels'' = Some (v, expires)" "now s < expires"
    by (auto dest: ttl_lookup_SomeD)
  have entry: "map_of (label_cache s1) ''labels'' = Some (v, expires)"
    by (simp add: s1 map_of_ttl_touch e)
  have "now s1 < expires" by (simp add: s1 e)
  then show ?thesis
    using entry get_labels_hit[OF entry] Some by auto
qed

text \<open>
  The first call finds the provider unreachable and returns the default labels. One
  hundred seconds later the provider would answer with a label of its own; the second call
  still returns the default labels and makes no request.
\<close>

theorem get_labels_sticky_witness:
  "fst (get_labels (up_const (Inl RequestError)) s0) = Inr default_labels
   \<and> fst (get_labels (up_const (Inr (JObj [(''labels'', JList [JStr ''HOT''])])))
            (advance 100 (snd (get_labels (up_const (Inl RequestError)) s0)))) = Inr default_labels
   \<and> calls (snd (get_labels (up_const (Inr (JObj [(''labels'', JList [JStr ''HOT''])])))
                   (advance 100 (snd (get_labels (up_const (Inl RequestError)) s0)))))
       = calls (snd (get_labels (up_const (Inl RequestError)) s0))"
proof -
  let ?s1 = "snd (get_labels (up_const (Inl RequestError)) s0)"
  have miss: "ttl_lookup (label_cache s0) (now s0) ''labels'' = None"
    by (simp add: s0_def init_def Let_def ttl_lookup_def)
  have first: "fst (get_labels (up_const (Inl RequestError)) s0) = Inr default_labels"
    by (simp add: get_labels_miss[OF miss] labels_inner_unfold up_const_def store_labels_def)
  then have "get_labels (up_const (Inl RequestError)) s0 = (Inr default_labels, ?s1)"
    by (metis prod.collapse)
  from get_labels_sticky[OF this] miss obtain expires
    where "expires = now ?s1 + 3600"
      and "\<forall>up' d. now ?s1 + d < expires \<longrightarrow>
             fst (get_labels up' (advance d ?s1)) = Inr default_labels
             \<and> calls (snd (get_labels up' (advance d ?s1))) = calls ?s1"
    by blast
  then have "fst (get_labels (up_const (Inr (JObj [(''labels'', JList [JStr ''HOT''])])))
                   (advance 100 ?s1)) = Inr default_labels
      \<and> calls (snd (get_labels (up_const (Inr (JObj [(''labels'', JList [JStr ''HOT''])])))
                   (advance 100 ?s1))) = calls ?s1"
    by simp
  with first show ?thesis by simp
qed

section \<open>Emails: the cache\<close>

lemma expand_thread_email_cache: "email_cache (snd (expand_thread up e s)) = email_cache s"
  by (simp add: expand_thread_def http_def Let_def
           split: prod.splits sum.splits json.splits option.splits)

lemma process_email_email_cache:
  "email_cache (snd (process_email up preview_only email s)) = email_cache s"
proof (cases email)
  case (JObj e0)
  have "email_cache (snd (expand_thread up (ensure_fields e0) s)) = email_cache s"
    by (rule expand_thread_email_cache)
  with JObj show ?thesis
    by (auto simp: process_email_def Let_def split: prod.splits sum.splits)
qed (simp_all add: process_email_def)

lemma process_list_email_cache:
  "email_cache (snd (process_list up preview_only es s)) = email_cache s"
proof (induction es arbitrary: s)
  case Nil
  then show ?case by simp
next
  case (Cons e es)
  obtain r s1 where p: "process_email up preview_only e s = (r, s1)" by (cases "process_email up preview_only e s")
  then have c1: "email_cache s1 = email_cache s"
    using process_email_email_cache[of up preview_only e s] by simp
  show ?case
  proof (cases r)
    case (Inl x)
    with p c1 show ?thesis by simp
  next
    case (Inr e')
    obtain r2 s2 where q: "process_list up preview_only es s1 = (r2, s2)"
      by (cases "process_list up preview_only es s1")
    then have "email_cache s2 = email_cache s1" using Cons.IH[of s1] by simp
    with p q c1 Inr show ?thesis by (cases r2) simp_all
  qed
qed

lemma process_emails_email_cache:
  "email_cache (snd (process_emails up preview_only emails s)) = email_cache s"
proof (cases emails)
  case (JList es)
  obtain r s1 where p: "process_list up preview_only es s = (r, s1)"
    by (cases "process_list up preview_only es s")
  then have "email_cache s1 = email_cache s"
    using process_list_email_cache[of up preview_only es s] by simp
  with p JList show ?thesis by (cases r) (simp_all add: process_emails_def)
qed (simp_all add: process_emails_def split: list.splits)

lemma get_emails_miss:
  "ttl_lookup (email_cache s) (now s) (cache_key preview_only lead_email campaign_id email_type label) = None \<Longrightarrow>
   get_emails up preview_only lead_email campaign_id email_type label s =
     (case http up (emails_request s preview_only lead_email campaign_id email_type label) s of
        (Inl x, s1) \<Rightarrow> (Inl x, s1)
      | (Inr data, s1) \<Rightarrow>
          (case data of
             JObj d \<Rightarrow>
               (case process_emails up preview_only (get_default d ''data'' (JList [])) s1 of
                  (Inl x, s2) \<Rightarrow> (Inl x, s2)
                | (Inr emails, s2) \<Rightarrow>
                    (Inr emails,
                     s2\<lparr>email_cache :=
                          ttl_setitem email_cache_maxsize email_cache_ttl (email_cache s2) (now s2)
                            (cache_key preview_only lead_email campaign_id email_type label) emails\<rparr>))
           | _ \<Rightarrow> (Inl AttributeError, s1)))"
  by (simp add: get_emails_def Let_def)





text \<open>
  C9. On a cache miss, when the primary request of \<^verbatim>\<open>get_emails\<close> raises, \<^verbatim>\<open>get_emails\<close>
  raises the same exception. And whenever \<^verbatim>\<open>get_emails\<close> raises, at the primary request or
  while a record is being normalized, the email cache is what it was before the call.
\<close>

theorem get_emails_failure_atomic:
  "(ttl_lookup (email_cache s) (now s) (cache_key po le ci et lb) = None
      \<and> fst (up (calls s) (emails_request s po le ci et lb)) = Inl x \<longrightarrow>
        fst (get_emails up po le ci et lb s) = Inl x)
   \<and> (fst (get_emails up po le ci et lb s) = Inl y \<longrightarrow>
        email_cache (snd (get_emails up po le ci et lb s)) = email_cache s)"
proof (intro conjI impI)
  assume "ttl_lookup (email_cache s) (now s) (cache_key po le ci et lb) = None
      \<and> fst (up (calls s) (emails_request s po le ci et lb)) = Inl x"
  then show "fst (get_emails up po le ci et lb s) = Inl x"
    by (cases "up (calls s) (emails_request s po le ci et lb)")
       (simp add: get_emails_def Let_def http_def)
next
  assume raised: "fst (get_emails up po le ci et lb s) = Inl y"
  show "email_cache (snd (get_emails up po le ci et lb s)) = email_cache s"
  proof (cases "ttl_lookup (email_cache s) (now s) (cache_key po le ci et lb)")
    case (Some w)
    with raised show ?thesis by (simp add: get_emails_def Let_def)
  next
    case None
    obtain r s1 where h: "http up (emails_request s po le ci et lb) s = (r, s1)"
      by (cases "http up (emails_request s po le ci et lb) s")
    then have c1: "email_cache s1 = email_cache s"
      using http_config(4)[of up "emails_request s po le ci et lb" s] by simp
    show ?thesis
    proof (cases r)
      case (Inl x)
      with h c1 show ?thesis by (simp add: get_emails_miss[OF None])
    next
      case (Inr data)
      show ?thesis
      proof (cases data)
        case (JObj d)
        obtain r2 s2 where p: "process_emails up po (get_default d ''data'' (JList [])) s1 = (r2, s2)"
          by (cases "process_emails up po (get_default d ''data'' (JList [])) s1")
        then have c2: "email_cache s2 = email_cache s1"
          using process_emails_email_cache[of up po "get_default d ''data'' (JList [])" s1] by simp
        from raised h Inr JObj p have "\<exists>e. r2 = Inl e"
          by (cases r2) (simp_all add: get_emails_miss[OF None])
        with h Inr JObj p c1 c2 show ?thesis
          by (auto simp: get_emails_miss[OF None])
      qed (use h Inr c1 in \<open>simp_all add: get_emails_miss[OF None]\<close>)
    qed
  qed
qed

text \<open>
  A gateway whose cache already holds a result under another key; the provider answers
  503 to the primary request, the call raises that error and the cache is as before.
\<close>

theorem get_emails_failure_atomic_witness:
  "fst (get_emails (up_const (Inl (HTTPStatusError 503))) True None None ''all'' None
          (s0\<lparr>email_cache := [(''False:None:None:all:None'', JList [], 300)]\<rparr>))
     = Inl (HTTPStatusError 503)
   \<and> email_cache (snd (get_emails (up_const (Inl (HTTPStatusError 503))) True None None ''all'' None
                         (s0\<lparr>email_cache := [(''False:None:None:all:None'', JList [], 300)]\<rparr>)))
     = [(''False:None:None:all:None'', JList [], 300)]"
  using get_emails_failure_atomic[of "s0\<lparr>email_cache := [(''False:None:None:all:None'', JList [], 300)]\<rparr>"
          True None None "''all''" None "up_const (Inl (HTTPStatusError 503))" "HTTPStatusError 503"
          "HTTPStatusError 503"]
  by (simp add: ttl_lookup_def cache_key_def str_bool_def up_const_def)

section \<open>Emails: thread expansion\<close>

lemma ensure_fields_thread_id: "get_none (ensure_fields e) ''thread_id'' = get_none e ''thread_id''"
  by (simp add: ensure_fields_def Let_def get_none_dict_set)



lemma process_email_no_expansion:
  "preview_only \<or> \<not> truthy (get_none e ''thread_id'') \<Longrightarrow>
   process_email up preview_only (JObj e) s =
     (Inr (JObj (other_fields (preview_body (ensure_fields e)))), s)"
  by (auto simp: process_email_def Let_def ensure_fields_thread_id)








section \<open>Emails: the body of a record\<close>

text \<open>
  The branch taken in preview mode, or for a record without a thread id, always leaves a
  body with both keys: a string \<open>b\<close> becomes \<^verbatim>\<open>{text: b, html: b}\<close>, a missing body becomes
  \<^verbatim>\<open>{text: "", html: ""}\<close>. It also holds for every record that \<^verbatim>\<open>to_address_json\<close> and
  \<^verbatim>\<open>is_unread\<close> are written back with their defaults.
\<close>

lemma other_fields_body: "map_of (other_fields e) ''body'' = map_of e ''body''"
  by (simp add: other_fields_def Let_def map_of_dict_set)

lemma ensure_fields_body: "map_of (ensure_fields e) ''body'' = map_of e ''body''"
  by (simp add: ensure_fields_def Let_def map_of_dict_set)

lemma preview_body_body:
  "map_of (preview_body e) ''body'' =
     Some (case get_none e ''body'' of
             JStr b \<Rightarrow> JObj [(''text'', JStr b), (''html'', JStr b)]
           | JObj b \<Rightarrow> JObj [(''text'', get_default b ''text'' (JStr '''')),
                              (''html'', get_default b ''html'' (JStr ''''))]
           | _ \<Rightarrow> JObj [(''text'', JStr ''''), (''html'', JStr '''')])"
  by (simp add: preview_body_def Let_def map_of_dict_set body_of_str_def body_of_dict_def
           split: json.splits)

lemma preview_record_body:
  assumes "preview_only \<or> \<not> truthy (get_none e ''thread_id'')"
  shows "\<exists>e' t h. fst (process_email up preview_only (JObj e) s) = Inr (JObj e')
           \<and> map_of e' ''body'' = Some (JObj [(''text'', t), (''html'', h)])
           \<and> (map_of e ''body'' = None \<longrightarrow> t = JStr '''' \<and> h = JStr '''')
           \<and> (\<forall>b. map_of e ''body'' = Some (JStr b) \<longrightarrow> t = JStr b \<and> h = JStr b)"
proof -
  have "get_none (ensure_fields e) ''body'' = get_none e ''body''"
    by (simp add: get_none_def get_default_def ensure_fields_body)
  then show ?thesis
    using process_email_no_expansion[OF assms, of up s]
    by (auto simp: other_fields_body preview_body_body get_none_def get_default_def
             split: json.splits option.splits)
qed

lemma preview_record_backfill:
  assumes "preview_only \<or> \<not> truthy (get_none e ''thread_id'')"
  shows "\<exists>e'. fst (process_email up preview_only (JObj e) s) = Inr (JObj e')
           \<and> map_of e' ''to_address_json'' = Some (get_default e ''to_address_json'' (JList []))
           \<and> map_of e' ''is_unread'' = Some (get_default e ''is_unread'' (JBool False))"
proof -
  have "map_of (other_fields (preview_body (ensure_fields e))) ''to_address_json''
          = Some (get_default e ''to_address_json'' (JList []))"
    by (simp add: other_fields_def preview_body_def ensure_fields_def Let_def map_of_dict_set
          get_default_dict_set split: json.splits)
  moreover
  have "map_of (other_fields (preview_body (ensure_fields e))) ''is_unread''
          = Some (get_default e ''is_unread'' (JBool False))"
    by (simp add: other_fields_def preview_body_def ensure_fields_def Let_def map_of_dict_set
          get_default_dict_set split: json.splits)
  ultimately show ?thesis
    using process_email_no_expansion[OF assms, of up s] by simp
qed

text \<open>
  C1 asks that every record returned by \<^verbatim>\<open>get_emails\<close> has a body with both keys, a string
  body \<open>b\<close> becoming \<^verbatim>\<open>{text: b, html: b}\<close> and a missing body \<^verbatim>\<open>{text: "", html: ""}\<close>. In a
  full fetch (\<^verbatim>\<open>preview_only\<close> false) of a record that has a thread id, the source rewrites the
  body only when the thread holds an entry with the record's id whose body is a string or
  a dictionary; otherwise the body stays as upstream sent it.
  \<^item> The record \<^verbatim>\<open>{id: e1, thread_id: t1, body: "hello"}\<close>, fetched while the thread endpoint
    is down, is returned with the string \<^verbatim>\<open>"hello"\<close> as its body.
  \<^item> The record \<^verbatim>\<open>{id: e1, thread_id: t1}\<close>, whose thread holds only an entry with id
    \<^verbatim>\<open>e0\<close>, is returned with no \<^verbatim>\<open>body\<close> key at all.
\<close>

theorem get_emails_full_mode_body_raw:
  "fst (get_emails
          (up_threads_down
             (JObj [(''data'', JList [JObj [(''id'', JStr ''e1''), (''thread_id'', JStr ''t1''),
                                            (''body'', JStr ''hello'')]])]))
          False None None ''all'' None s0)
     = Inr (JList [JObj [(''id'', JStr ''e1''), (''thread_id'', JStr ''t1''), (''body'', JStr ''hello''),
                         (''message_id'', JStr ''''), (''subject'', JStr ''''),
                         (''from_address_email'', JStr ''''),
                         (''from_address_json'', JList [JObj [(''address'', JStr ''''), (''name'', JStr '''')]]),
                         (''to_address_json'', JList []), (''cc_address_json'', JList []),
                         (''timestamp_created'', JNull), (''content_preview'', JStr ''''),
                         (''thread'', JList []), (''label'', JNull), (''campaign_id'', JNull),
                         (''lead_id'', JNull), (''is_unread'', JBool False)]])
   \<and> fst (get_emails
            (up_script [Inr (JObj [(''data'', JList [JObj [(''id'', JStr ''e1''), (''thread_id'', JStr ''t1'')]])]),
                        Inr (JObj [(''data'', JList [JObj [(''id'', JStr ''e0''), (''body'', JStr ''first'')]])])])
            False None None ''all'' None s0)
     = Inr (JList [JObj [(''id'', JStr ''e1''), (''thread_id'', JStr ''t1''), (''message_id'', JStr ''''),
                         (''subject'', JStr ''''), (''from_address_email'', JStr ''''),
                         (''from_address_json'', JList [JObj [(''address'', JStr ''''), (''name'', JStr '''')]]),
                         (''to_address_json'', JList []), (''cc_address_json'', JList []),
                         (''timestamp_created'', JNull), (''content_preview'', JStr ''''),
                         (''thread'', JList [JObj [(''id'', JStr ''e0''), (''body'', JStr ''first'')]]),
                         (''label'', JNull), (''campaign_id'', JNull), (''lead_id'', JNull),
                         (''is_unread'', JBool False)]])"
  by code_simp

end
